theory Spec2Isabelle
  imports Main
begin

section \<open>Python values\<close>

text \<open>
  A Python \<open>str\<close> is a sequence of Unicode code points; it is modelled as a list of
  natural numbers. \<open>lit\<close> turns an ASCII literal of the source into such a sequence.
\<close>

type_synonym pystr = "nat list"

definition lit :: "string \<Rightarrow> pystr" where
  "lit s = map of_char s"

text \<open>
  The values \<open>json.loads\<close> produces and \<open>json.dumps\<close> accepts: \<open>None\<close>, \<open>bool\<close>,
  \<open>int\<close> (unbounded), \<open>float\<close>, \<open>str\<close>, \<open>list\<close> and \<open>dict\<close> with \<open>str\<close> keys. A
  \<open>dict\<close> is the list of its items in insertion order; Python keeps the keys distinct.
  Floating point is not modelled: the type of floats is the parameter \<open>'f\<close>.
\<close>

datatype 'f json =
    JNull
  | JBool bool
  | JInt int
  | JFloat 'f
  | JStr pystr
  | JArr "'f json list"
  | JObj "(pystr \<times> 'f json) list"

text \<open>
  What the program uses of the Python runtime without the source fixing it is a parameter
  of the model, so that every theorem below holds for any float arithmetic, any Unicode
  character database and any encoding of standard output:
  \<^item> \<open>float_of_str\<close>: \<open>float(s)\<close> for a JSON number with a fraction or an exponent, and
    for \<open>NaN\<close>, \<open>Infinity\<close>, \<open>-Infinity\<close>;
  \<^item> \<open>float_repr\<close>: \<open>repr\<close> of a float; \<open>float_add\<close>, \<open>float_mul\<close>: \<open>+\<close> and \<open>*\<close> on
    floats; \<open>float_of_int\<close>: the conversion of an int operand, \<open>None\<close> when it raises
    \<open>OverflowError\<close>;
  \<^item> \<open>printable\<close>: \<open>str.isprintable\<close> on a code point above 127;
  \<^item> \<open>encode_error\<close>: for a text with a code point above 127 written to standard
    output, \<open>None\<close> when the stream's encoding accepts it and otherwise the message of
    the \<open>UnicodeEncodeError\<close> raised.
\<close>

record 'f runtime =
  float_of_str :: "pystr \<Rightarrow> 'f"
  float_repr :: "'f \<Rightarrow> pystr"
  float_add :: "'f \<Rightarrow> 'f \<Rightarrow> 'f"
  float_mul :: "'f \<Rightarrow> 'f \<Rightarrow> 'f"
  float_of_int :: "int \<Rightarrow> 'f option"
  printable :: "nat \<Rightarrow> bool"
  encode_error :: "pystr \<Rightarrow> pystr option"

subsection \<open>Exceptions\<close>

text \<open>A raised exception is its class and the text \<open>str(e)\<close>.\<close>

datatype exc_class =
  KeyError | AttributeError | TypeError | OverflowError | MemoryError
  | UnicodeEncodeError | UnicodeDecodeError | NotImplementedError

datatype py_exc = Exc exc_class pystr

fun exc_str :: "py_exc \<Rightarrow> pystr" where
  "exc_str (Exc c m) = m"

text \<open>Sequencing of two computations that may raise.\<close>

definition and_then :: "py_exc + 'a \<Rightarrow> ('a \<Rightarrow> py_exc + 'b) \<Rightarrow> py_exc + 'b" where
  "and_then x f = (case x of Inl e \<Rightarrow> Inl e | Inr v \<Rightarrow> f v)"

subsection \<open>Numbers and characters as text\<close>

fun nat_digits :: "nat \<Rightarrow> pystr" where
  "nat_digits n = (if n < 10 then [48 + n] else nat_digits (n div 10) @ [48 + n mod 10])"

declare nat_digits.simps [simp del]

definition int_str :: "int \<Rightarrow> pystr" where
  "int_str i = (if i < 0 then 45 # nat_digits (nat (- i)) else nat_digits (nat i))"

definition hex_digit :: "nat \<Rightarrow> nat" where
  "hex_digit d = (if d < 10 then 48 + d else 87 + d)"

definition hex2 :: "nat \<Rightarrow> pystr" where
  "hex2 c = [hex_digit (c div 16 mod 16), hex_digit (c mod 16)]"

definition hex4 :: "nat \<Rightarrow> pystr" where
  "hex4 c = [hex_digit (c div 4096 mod 16), hex_digit (c div 256 mod 16),
             hex_digit (c div 16 mod 16), hex_digit (c mod 16)]"

definition hex8 :: "nat \<Rightarrow> pystr" where
  "hex8 c = hex4 (c div 65536 mod 65536) @ hex4 (c mod 65536)"

subsection \<open>\<open>str()\<close> and \<open>repr()\<close>\<close>

text \<open>
  \<open>repr\<close> of a \<open>str\<close>: single quotes unless the text holds a single quote and no double
  quote; the quote and the backslash are escaped, so are tab, newline and carriage
  return; other control characters, DEL and non-printable characters are written in
  hexadecimal.
\<close>

definition repr_char :: "'f runtime \<Rightarrow> nat \<Rightarrow> nat \<Rightarrow> pystr" where
  "repr_char rt q c =
     (if c = q \<or> c = 92 then [92, c]
      else if c = 9 then (92 # lit ''t'')
      else if c = 10 then (92 # lit ''n'')
      else if c = 13 then (92 # lit ''r'')
      else if c < 32 \<or> c = 127 then (92 # lit ''x'') @ hex2 c
      else if c < 127 then [c]
      else if printable rt c then [c]
      else if c \<le> 255 then (92 # lit ''x'') @ hex2 c
      else if c \<le> 65535 then (92 # lit ''u'') @ hex4 c
      else (92 # lit ''U'') @ hex8 c)"

definition str_repr :: "'f runtime \<Rightarrow> pystr \<Rightarrow> pystr" where
  "str_repr rt s =
     (let q = (if 39 \<in> set s \<and> 34 \<notin> set s then 34 else 39)
      in [q] @ concat (map (repr_char rt q) s) @ [q])"

fun py_repr :: "'f runtime \<Rightarrow> 'f json \<Rightarrow> pystr"
  and py_repr_elems :: "'f runtime \<Rightarrow> 'f json list \<Rightarrow> pystr"
  and py_repr_items :: "'f runtime \<Rightarrow> (pystr \<times> 'f json) list \<Rightarrow> pystr" where
  "py_repr rt JNull = lit ''None''"
| "py_repr rt (JBool b) = (if b then lit ''True'' else lit ''False'')"
| "py_repr rt (JInt i) = int_str i"
| "py_repr rt (JFloat x) = float_repr rt x"
| "py_repr rt (JStr s) = str_repr rt s"
| "py_repr rt (JArr xs) = lit ''['' @ py_repr_elems rt xs @ lit '']''"
| "py_repr rt (JObj kvs) = lit ''{'' @ py_repr_items rt kvs @ lit ''}''"
| "py_repr_elems rt [] = []"
| "py_repr_elems rt [x] = py_repr rt x"
| "py_repr_elems rt (x # y # ys) = py_repr rt x @ lit '', '' @ py_repr_elems rt (y # ys)"
| "py_repr_items rt [] = []"
| "py_repr_items rt [(k, v)] = str_repr rt k @ lit '': '' @ py_repr rt v"
| "py_repr_items rt ((k, v) # kv # kvs) =
     str_repr rt k @ lit '': '' @ py_repr rt v @ lit '', '' @ py_repr_items rt (kv # kvs)"

text \<open>\<open>str(v)\<close>, which an f-string applies: a \<open>str\<close> is itself, anything else its \<open>repr\<close>.\<close>

definition py_str :: "'f runtime \<Rightarrow> 'f json \<Rightarrow> pystr" where
  "py_str rt v = (case v of JStr s \<Rightarrow> s | _ \<Rightarrow> py_repr rt v)"

definition type_name :: "'f json \<Rightarrow> pystr" where
  "type_name v =
     (case v of JNull \<Rightarrow> lit ''NoneType'' | JBool b \<Rightarrow> lit ''bool'' | JInt i \<Rightarrow> lit ''int''
      | JFloat x \<Rightarrow> lit ''float'' | JStr s \<Rightarrow> lit ''str'' | JArr xs \<Rightarrow> lit ''list''
      | JObj kvs \<Rightarrow> lit ''dict'')"

section \<open>The \<open>json\<close> module of the standard library\<close>

text \<open>
  \<open>json.dumps\<close> and \<open>json.loads\<close> with their default arguments, as the program calls
  them. The repository does not contain them; they are modelled here after CPython's
  \<open>json.encoder\<close> and \<open>json.decoder\<close> so that the program can be run on the lines of
  text it really receives. Two limits of CPython are left out: the bound on the number
  of digits of an integer converted from or to text, and the recursion limit. Both
  surface in the program as exceptions other than \<open>JSONDecodeError\<close>.
\<close>

subsection \<open>\<open>json.dumps\<close>\<close>

text \<open>
  With \<open>ensure_ascii\<close>, every character outside the printable ASCII range is written as
  an escape, a code point above \<open>0xFFFF\<close> as a surrogate pair.
\<close>

definition esc_char :: "nat \<Rightarrow> pystr" where
  "esc_char c =
     (if c = 34 then [92, 34]
      else if c = 92 then [92, 92]
      else if c = 10 then [92, 110]
      else if c = 13 then [92, 114]
      else if c = 9 then [92, 116]
      else if c = 8 then [92, 98]
      else if c = 12 then [92, 102]
      else if 32 \<le> c \<and> c \<le> 126 then [c]
      else if c < 65536 then 92 # 117 # hex4 c
      else 92 # 117 # hex4 (55296 + (c - 65536) div 1024 mod 1024)
           @ 92 # 117 # hex4 (56320 + (c - 65536) mod 1024))"

definition encode_str :: "pystr \<Rightarrow> pystr" where
  "encode_str s = 34 # concat (map esc_char s) @ [34]"

text \<open>A float is written as its \<open>repr\<close>, except for the three special values.\<close>

definition float_json :: "'f runtime \<Rightarrow> 'f \<Rightarrow> pystr" where
  "float_json rt x =
     (let r = float_repr rt x
      in if r = lit ''nan'' then lit ''NaN''
         else if r = lit ''inf'' then lit ''Infinity''
         else if r = lit ''-inf'' then lit ''-Infinity''
         else r)"

fun dumps :: "'f runtime \<Rightarrow> 'f json \<Rightarrow> pystr"
  and dumps_elems :: "'f runtime \<Rightarrow> 'f json list \<Rightarrow> pystr"
  and dumps_items :: "'f runtime \<Rightarrow> (pystr \<times> 'f json) list \<Rightarrow> pystr" where
  "dumps rt JNull = lit ''null''"
| "dumps rt (JBool b) = (if b then lit ''true'' else lit ''false'')"
| "dumps rt (JInt i) = int_str i"
| "dumps rt (JFloat x) = float_json rt x"
| "dumps rt (JStr s) = encode_str s"
| "dumps rt (JArr xs) = 91 # dumps_elems rt xs @ [93]"
| "dumps rt (JObj kvs) = 123 # dumps_items rt kvs @ [125]"
| "dumps_elems rt [] = []"
| "dumps_elems rt [x] = dumps rt x"
| "dumps_elems rt (x # y # ys) = dumps rt x @ lit '', '' @ dumps_elems rt (y # ys)"
| "dumps_items rt [] = []"
| "dumps_items rt [(k, v)] = encode_str k @ lit '': '' @ dumps rt v"
| "dumps_items rt ((k, v) # kv # kvs) =
     encode_str k @ lit '': '' @ dumps rt v @ lit '', '' @ dumps_items rt (kv # kvs)"

text \<open>
  \<open>json.dumps(v, indent=2)\<close>: every item of a non-empty container on a line of its
  own, indented by two spaces per level of nesting.
\<close>

definition newline_indent :: "nat \<Rightarrow> pystr" where
  "newline_indent level = 10 # replicate (2 * level) 32"

fun dumps_indent :: "'f runtime \<Rightarrow> nat \<Rightarrow> 'f json \<Rightarrow> pystr"
  and dumps_indent_elems :: "'f runtime \<Rightarrow> nat \<Rightarrow> 'f json list \<Rightarrow> pystr"
  and dumps_indent_items :: "'f runtime \<Rightarrow> nat \<Rightarrow> (pystr \<times> 'f json) list \<Rightarrow> pystr" where
  "dumps_indent rt l JNull = lit ''null''"
| "dumps_indent rt l (JBool b) = (if b then lit ''true'' else lit ''false'')"
| "dumps_indent rt l (JInt i) = int_str i"
| "dumps_indent rt l (JFloat x) = float_json rt x"
| "dumps_indent rt l (JStr s) = encode_str s"
| "dumps_indent rt l (JArr xs) =
     (if xs = [] then lit ''[]''
      else 91 # newline_indent (l + 1) @ dumps_indent_elems rt (l + 1) xs
           @ newline_indent l @ [93])"
| "dumps_indent rt l (JObj kvs) =
     (if kvs = [] then lit ''{}''
      else 123 # newline_indent (l + 1) @ dumps_indent_items rt (l + 1) kvs
           @ newline_indent l @ [125])"
| "dumps_indent_elems rt l [] = []"
| "dumps_indent_elems rt l [x] = dumps_indent rt l x"
| "dumps_indent_elems rt l (x # y # ys) =
     dumps_indent rt l x @ 44 # newline_indent l @ dumps_indent_elems rt l (y # ys)"
| "dumps_indent_items rt l [] = []"
| "dumps_indent_items rt l [(k, v)] = encode_str k @ lit '': '' @ dumps_indent rt l v"
| "dumps_indent_items rt l ((k, v) # kv # kvs) =
     encode_str k @ lit '': '' @ dumps_indent rt l v @ 44 # newline_indent l
     @ dumps_indent_items rt l (kv # kvs)"

subsection \<open>\<open>json.loads\<close>\<close>

definition is_ws :: "nat \<Rightarrow> bool" where
  "is_ws c = (c = 32 \<or> c = 9 \<or> c = 10 \<or> c = 13)"

definition skip_ws :: "pystr \<Rightarrow> pystr" where
  "skip_ws s = dropWhile is_ws s"

definition is_digit :: "nat \<Rightarrow> bool" where
  "is_digit c = (48 \<le> c \<and> c \<le> 57)"

definition hex_val :: "nat \<Rightarrow> nat option" where
  "hex_val c =
     (if 48 \<le> c \<and> c \<le> 57 then Some (c - 48)
      else if 97 \<le> c \<and> c \<le> 102 then Some (c - 87)
      else if 65 \<le> c \<and> c \<le> 70 then Some (c - 55)
      else None)"

text \<open>The value of the four hexadecimal digits a text starts with.\<close>

definition hex4_val :: "pystr \<Rightarrow> nat option" where
  "hex4_val s =
     (case s of
        a # b # c # d # r \<Rightarrow>
          (case (hex_val a, hex_val b, hex_val c, hex_val d) of
             (Some x, Some y, Some z, Some w) \<Rightarrow> Some (((x * 16 + y) * 16 + z) * 16 + w)
           | _ \<Rightarrow> None)
      | _ \<Rightarrow> None)"

text \<open>
  The text after a backslash inside a string: the character it stands for and the text
  after the escape. A high surrogate followed by an escaped low surrogate is one code
  point.
\<close>

definition scan_escape :: "pystr \<Rightarrow> (nat \<times> pystr) option" where
  "scan_escape s =
     (case s of
        [] \<Rightarrow> None
      | e # r \<Rightarrow>
          if e = 117 then
            (case hex4_val r of
               None \<Rightarrow> None
             | Some u \<Rightarrow>
                 if 55296 \<le> u \<and> u \<le> 56319 \<and> take 2 (drop 4 r) = [92, 117] then
                   (case hex4_val (drop 6 r) of
                      None \<Rightarrow> None
                    | Some u2 \<Rightarrow>
                        if 56320 \<le> u2 \<and> u2 \<le> 57343
                        then Some (65536 + (u - 55296) * 1024 + (u2 - 56320), drop 10 r)
                        else Some (u, drop 4 r))
                 else Some (u, drop 4 r))
          else if e = 34 then Some (34, r)
          else if e = 92 then Some (92, r)
          else if e = 47 then Some (47, r)
          else if e = 98 then Some (8, r)
          else if e = 102 then Some (12, r)
          else if e = 110 then Some (10, r)
          else if e = 114 then Some (13, r)
          else if e = 116 then Some (9, r)
          else None)"

lemma scan_escape_shorter:
  "scan_escape s = Some (c, r) \<Longrightarrow> length r < length s"
  by (auto simp: scan_escape_def hex4_val_def
           split: list.splits option.splits if_splits prod.splits)

text \<open>
  The text after an opening quote: the content of the string and the text after the
  closing quote. A control character inside a string is an error (strict mode).
\<close>

function scanstring :: "pystr \<Rightarrow> (pystr \<times> pystr) option" where
  "scanstring [] = None"
| "scanstring (c # cs) =
     (if c = 34 then Some ([], cs)
      else if c = 92 then
        (case scan_escape cs of
           None \<Rightarrow> None
         | Some (ch, rest) \<Rightarrow>
             (case scanstring rest of
                None \<Rightarrow> None
              | Some (content, rest') \<Rightarrow> Some (ch # content, rest')))
      else if c < 32 then None
      else
        (case scanstring cs of
           None \<Rightarrow> None
         | Some (content, rest') \<Rightarrow> Some (c # content, rest')))"
  by pat_completeness auto
termination
  by (relation "measure length") (auto dest: scan_escape_shorter)

declare scanstring.simps [simp del]

text \<open>
  A number: an optional minus sign, then \<open>0\<close> or a digit from 1 to 9 and more digits;
  optionally a fraction (a point and at least one digit); optionally an exponent. It is
  an \<open>int\<close> when it has neither fraction nor exponent and a \<open>float\<close> otherwise.
\<close>

definition digits_val :: "pystr \<Rightarrow> nat" where
  "digits_val ds = foldl (\<lambda>n d. 10 * n + (d - 48)) 0 ds"

definition match_int :: "pystr \<Rightarrow> (pystr \<times> pystr) option" where
  "match_int s =
     (let (sign, r) = (case s of c # r \<Rightarrow> if c = 45 then ([45], r) else ([], s) | [] \<Rightarrow> ([], s))
      in case r of
           [] \<Rightarrow> None
         | d # r' \<Rightarrow>
             if d = 48 then Some (sign @ [48], r')
             else if is_digit d then Some (sign @ takeWhile is_digit r, dropWhile is_digit r)
             else None)"

definition match_frac :: "pystr \<Rightarrow> pystr \<times> pystr" where
  "match_frac s =
     (case s of
        c # d # r \<Rightarrow>
          if c = 46 \<and> is_digit d
          then (c # takeWhile is_digit (d # r), dropWhile is_digit (d # r))
          else ([], s)
      | _ \<Rightarrow> ([], s))"

definition match_exp :: "pystr \<Rightarrow> pystr \<times> pystr" where
  "match_exp s =
     (case s of
        [] \<Rightarrow> ([], s)
      | e # r \<Rightarrow>
          if e = 101 \<or> e = 69 then
            (let (sign, r') =
                   (case r of c # t \<Rightarrow> if c = 45 \<or> c = 43 then ([c], t) else ([], r)
                    | [] \<Rightarrow> ([], r))
             in case r' of
                  d # t \<Rightarrow>
                    if is_digit d
                    then (e # sign @ takeWhile is_digit r', dropWhile is_digit r')
                    else ([], s)
                | [] \<Rightarrow> ([], s))
          else ([], s))"

definition int_of_text :: "pystr \<Rightarrow> int" where
  "int_of_text t =
     (case t of
        c # r \<Rightarrow> if c = 45 then - int (digits_val r) else int (digits_val t)
      | [] \<Rightarrow> 0)"

definition match_number :: "'f runtime \<Rightarrow> pystr \<Rightarrow> ('f json \<times> pystr) option" where
  "match_number rt s =
     (case match_int s of
        None \<Rightarrow> None
      | Some (integer, r1) \<Rightarrow>
          (let (frac, r2) = match_frac r1; (exp, r3) = match_exp r2
           in if frac \<noteq> [] \<or> exp \<noteq> []
              then Some (JFloat (float_of_str rt (integer @ frac @ exp)), r3)
              else Some (JInt (int_of_text integer), r3)))"

text \<open>
  The decoder builds a \<open>dict\<close> from the pairs of an object in the order read: a key
  read again keeps its place and takes the later value.
\<close>

definition dict_set :: "pystr \<Rightarrow> 'v \<Rightarrow> (pystr \<times> 'v) list \<Rightarrow> (pystr \<times> 'v) list" where
  "dict_set k v d =
     (if k \<in> fst ` set d then map (\<lambda>kv. if fst kv = k then (k, v) else kv) d
      else d @ [(k, v)])"

definition dict_of_pairs :: "(pystr \<times> 'v) list \<Rightarrow> (pystr \<times> 'v) list" where
  "dict_of_pairs pairs = foldl (\<lambda>d kv. dict_set (fst kv) (snd kv) d) [] pairs"

lemma skip_ws_length: "length (skip_ws s) \<le> length s"
  by (simp add: skip_ws_def length_dropWhile_le)

lemma skip_ws_Cons_shorter: "skip_ws s = c # r \<Longrightarrow> length r < length s"
  using skip_ws_length [of s] by simp

lemma scanstring_shorter: "scanstring s = Some (t, r) \<Longrightarrow> length r < length s"
proof (induction s arbitrary: t r rule: scanstring.induct)
  case 1
  then show ?case by (simp add: scanstring.simps)
next
  case (2 c cs)
  show ?case
  proof (cases "c = 34")
    case True
    with "2.prems" show ?thesis by (simp add: scanstring.simps)
  next
    case quote: False
    show ?thesis
    proof (cases "c = 92")
      case True
      with quote "2.prems" obtain ch rest content where
        esc: "scan_escape cs = Some (ch, rest)" and
        rec: "scanstring rest = Some (content, r)"
        by (auto simp: scanstring.simps split: option.splits)
      from "2.IH"(1) [OF quote True esc refl rec] scan_escape_shorter [OF esc]
      show ?thesis by simp
    next
      case False
      with quote "2.prems" obtain content where
        ctl: "\<not> c < 32" and rec: "scanstring cs = Some (content, r)"
        by (auto simp: scanstring.simps split: option.splits if_splits)
      from "2.IH"(2) [OF quote False ctl rec] show ?thesis by simp
    qed
  qed
qed

text \<open>
  \<open>scan_once\<close> reads one value at the start of a text. \<open>parse_elems\<close> reads the items of
  an array up to its closing bracket, \<open>parse_items\<close> the pairs of an object from after
  the opening quote of a key up to the closing brace. Every value read is at least one
  character long; the two tests on the length of the rest say so to the termination
  proof and never fail.
\<close>

function scan_once :: "'f runtime \<Rightarrow> pystr \<Rightarrow> ('f json \<times> pystr) option"
  and parse_elems :: "'f runtime \<Rightarrow> pystr \<Rightarrow> ('f json list \<times> pystr) option"
  and parse_items :: "'f runtime \<Rightarrow> pystr \<Rightarrow> ((pystr \<times> 'f json) list \<times> pystr) option"
  where
  "scan_once rt s =
     (case s of
        [] \<Rightarrow> None
      | c # r \<Rightarrow>
          if c = 34 then
            (case scanstring r of None \<Rightarrow> None | Some (t, r') \<Rightarrow> Some (JStr t, r'))
          else if c = 123 then
            (case skip_ws r of
               [] \<Rightarrow> None
             | d # r2 \<Rightarrow>
                 if d = 125 then Some (JObj [], r2)
                 else if d = 34 then
                   (case parse_items rt r2 of
                      None \<Rightarrow> None
                    | Some (pairs, r3) \<Rightarrow> Some (JObj (dict_of_pairs pairs), r3))
                 else None)
          else if c = 91 then
            (case skip_ws r of
               [] \<Rightarrow> None
             | d # r2 \<Rightarrow>
                 if d = 93 then Some (JArr [], r2)
                 else
                   (case parse_elems rt (skip_ws r) of
                      None \<Rightarrow> None
                    | Some (xs, r3) \<Rightarrow> Some (JArr xs, r3)))
          else if take 4 s = lit ''null'' then Some (JNull, drop 4 s)
          else if take 4 s = lit ''true'' then Some (JBool True, drop 4 s)
          else if take 5 s = lit ''false'' then Some (JBool False, drop 5 s)
          else
            (case match_number rt s of
               Some res \<Rightarrow> Some res
             | None \<Rightarrow>
                 if take 3 s = lit ''NaN''
                 then Some (JFloat (float_of_str rt (lit ''NaN'')), drop 3 s)
                 else if take 8 s = lit ''Infinity''
                 then Some (JFloat (float_of_str rt (lit ''Infinity'')), drop 8 s)
                 else if take 9 s = lit ''-Infinity''
                 then Some (JFloat (float_of_str rt (lit ''-Infinity'')), drop 9 s)
                 else None))"
| "parse_elems rt s =
     (case scan_once rt s of
        None \<Rightarrow> None
      | Some (v, r) \<Rightarrow>
          if length r < length s then
            (case skip_ws r of
               [] \<Rightarrow> None
             | d # r1 \<Rightarrow>
                 if d = 93 then Some ([v], r1)
                 else if d = 44 then
                   (case parse_elems rt (skip_ws r1) of
                      None \<Rightarrow> None
                    | Some (vs, r2) \<Rightarrow> Some (v # vs, r2))
                 else None)
          else None)"
| "parse_items rt s =
     (case scanstring s of
        None \<Rightarrow> None
      | Some (key, r) \<Rightarrow>
          (case skip_ws r of
             [] \<Rightarrow> None
           | c # r1 \<Rightarrow>
               if c = 58 then
                 (case scan_once rt (skip_ws r1) of
                    None \<Rightarrow> None
                  | Some (v, r2) \<Rightarrow>
                      if length r2 < length s then
                        (case skip_ws r2 of
                           [] \<Rightarrow> None
                         | d # r3 \<Rightarrow>
                             if d = 125 then Some ([(key, v)], r3)
                             else if d = 44 then
                               (case skip_ws r3 of
                                  [] \<Rightarrow> None
                                | q # r4 \<Rightarrow>
                                    if q = 34 then
                                      (case parse_items rt r4 of
                                         None \<Rightarrow> None
                                       | Some (pairs, r5) \<Rightarrow> Some ((key, v) # pairs, r5))
                                    else None)
                             else None)
                      else None)
               else None))"
  by pat_completeness auto
termination
proof (relation "measure (\<lambda>x. case x of
          Inl (rt, s) \<Rightarrow> 2 * length s + 1
        | Inr (Inl (rt, s)) \<Rightarrow> 2 * length s + 2
        | Inr (Inr (rt, s)) \<Rightarrow> 2 * length s + 2)", goal_cases)
  case 1
  show ?case by simp
next
  case (2 rt s c r d r2)
  then show ?case using skip_ws_Cons_shorter [of r d r2] by simp
next
  case (3 rt s c r d r2)
  then show ?case using skip_ws_length [of r] by simp
next
  case (4 rt s)
  show ?case by simp
next
  case (5 rt s x v r d r1)
  then show ?case
    using skip_ws_Cons_shorter [of r d r1] skip_ws_length [of r1] by simp
next
  case (6 rt s x key r c r1)
  then show ?case
    using scanstring_shorter [of s key r] skip_ws_Cons_shorter [of r c r1]
      skip_ws_length [of r1] by simp
next
  case (7 rt s x key r c r1 y v r2 d r3 q r4)
  then show ?case
    using skip_ws_Cons_shorter [of r2 d r3] skip_ws_Cons_shorter [of r3 q r4] by simp
qed

declare scan_once.simps [simp del] parse_elems.simps [simp del] parse_items.simps [simp del]

text \<open>
  \<open>json.loads\<close>: white space, one value, white space, and nothing else. \<open>None\<close> stands
  for \<open>JSONDecodeError\<close>.
\<close>

definition loads :: "'f runtime \<Rightarrow> pystr \<Rightarrow> 'f json option" where
  "loads rt s =
     (case scan_once rt (skip_ws s) of
        None \<Rightarrow> None
      | Some (v, r) \<Rightarrow> if skip_ws r = [] then Some v else None)"

section \<open>Python operations on decoded values\<close>

text \<open>
  The operators and methods the program applies to values that came out of
  \<open>json.loads\<close>, for every type such a value can have, with the exception each raises
  (messages as CPython 3.12 words them).
\<close>

definition quoted :: "pystr \<Rightarrow> pystr" where
  "quoted s = 39 # s @ [39]"

text \<open>Truth value of a value, as \<open>not v\<close> tests it.\<close>

definition py_bool :: "'f runtime \<Rightarrow> 'f json \<Rightarrow> bool" where
  "py_bool rt v =
     (case v of
        JNull \<Rightarrow> False
      | JBool b \<Rightarrow> b
      | JInt i \<Rightarrow> i \<noteq> 0
      | JFloat x \<Rightarrow> float_repr rt x \<noteq> lit ''0.0'' \<and> float_repr rt x \<noteq> lit ''-0.0''
      | JStr s \<Rightarrow> s \<noteq> []
      | JArr xs \<Rightarrow> xs \<noteq> []
      | JObj kvs \<Rightarrow> kvs \<noteq> [])"

fun has_substring :: "pystr \<Rightarrow> pystr \<Rightarrow> bool" where
  "has_substring t [] = (t = [])"
| "has_substring t (c # s) = (take (length t) (c # s) = t \<or> has_substring t s)"

text \<open>
  \<open>key in v\<close> for a \<open>str\<close> key: a key of a dict, an item of a list, a substring of a
  string; any other \<open>v\<close> is not iterable.
\<close>

definition py_contains :: "pystr \<Rightarrow> 'f json \<Rightarrow> py_exc + bool" where
  "py_contains key v =
     (case v of
        JObj kvs \<Rightarrow> Inr (key \<in> fst ` set kvs)
      | JArr xs \<Rightarrow> Inr (JStr key \<in> set xs)
      | JStr s \<Rightarrow> Inr (has_substring key s)
      | _ \<Rightarrow> Inl (Exc TypeError
                 (lit ''argument of type '' @ quoted (type_name v) @ lit '' is not iterable'')))"

text \<open>\<open>v[key]\<close> for a \<open>str\<close> key.\<close>

definition py_getitem :: "'f runtime \<Rightarrow> 'f json \<Rightarrow> pystr \<Rightarrow> py_exc + 'f json" where
  "py_getitem rt v key =
     (case v of
        JObj kvs \<Rightarrow>
          (case map_of kvs key of
             Some x \<Rightarrow> Inr x
           | None \<Rightarrow> Inl (Exc KeyError (str_repr rt key)))
      | JArr xs \<Rightarrow>
          Inl (Exc TypeError (lit ''list indices must be integers or slices, not str''))
      | JStr s \<Rightarrow>
          Inl (Exc TypeError (lit ''string indices must be integers, not '' @ quoted (lit ''str'')))
      | _ \<Rightarrow>
          Inl (Exc TypeError (quoted (type_name v) @ lit '' object is not subscriptable'')))"

text \<open>\<open>v.get(key, default)\<close>: only a dict has the method.\<close>

definition py_get :: "'f json \<Rightarrow> pystr \<Rightarrow> 'f json \<Rightarrow> py_exc + 'f json" where
  "py_get v key dflt =
     (case v of
        JObj kvs \<Rightarrow> Inr (case map_of kvs key of Some x \<Rightarrow> x | None \<Rightarrow> dflt)
      | _ \<Rightarrow>
          Inl (Exc AttributeError
                (quoted (type_name v) @ lit '' object has no attribute '' @ quoted (lit ''get''))))"

text \<open>
  \<open>v in d\<close> and \<open>d[v]\<close> for one of the server's registries \<open>d\<close>, whose keys are strings:
  a list or a dict cannot be hashed, a value of any other type than \<open>str\<close> equals no
  key.
\<close>

definition unhashable :: "'f json \<Rightarrow> py_exc" where
  "unhashable v = Exc TypeError (lit ''unhashable type: '' @ quoted (type_name v))"

definition py_in_registry :: "'f json \<Rightarrow> (pystr \<times> 'v) list \<Rightarrow> py_exc + bool" where
  "py_in_registry v d =
     (case v of
        JStr s \<Rightarrow> Inr (s \<in> fst ` set d)
      | JArr xs \<Rightarrow> Inl (unhashable v)
      | JObj kvs \<Rightarrow> Inl (unhashable v)
      | _ \<Rightarrow> Inr False)"

definition py_registry_getitem ::
  "'f runtime \<Rightarrow> (pystr \<times> 'v) list \<Rightarrow> 'f json \<Rightarrow> py_exc + 'v" where
  "py_registry_getitem rt d v =
     (case v of
        JArr xs \<Rightarrow> Inl (unhashable v)
      | JObj kvs \<Rightarrow> Inl (unhashable v)
      | JStr s \<Rightarrow>
          (case map_of d s of Some x \<Rightarrow> Inr x | None \<Rightarrow> Inl (Exc KeyError (py_repr rt v)))
      | _ \<Rightarrow> Inl (Exc KeyError (py_repr rt v)))"

text \<open>\<open>v[::-1]\<close>.\<close>

definition py_reversed :: "'f json \<Rightarrow> py_exc + 'f json" where
  "py_reversed v =
     (case v of
        JStr s \<Rightarrow> Inr (JStr (rev s))
      | JArr xs \<Rightarrow> Inr (JArr (rev xs))
      | JObj kvs \<Rightarrow> Inl (Exc KeyError (lit ''slice(None, None, -1)''))
      | _ \<Rightarrow> Inl (Exc TypeError (quoted (type_name v) @ lit '' object is not subscriptable'')))"

subsection \<open>\<open>+\<close> and \<open>*\<close>\<close>

text \<open>A \<open>bool\<close> is an \<open>int\<close> in arithmetic.\<close>

definition as_int :: "'f json \<Rightarrow> int option" where
  "as_int v = (case v of JInt i \<Rightarrow> Some i | JBool b \<Rightarrow> Some (if b then 1 else 0) | _ \<Rightarrow> None)"

text \<open>
  The operand of a float operation: a float, or an int converted to one, which raises
  when the int is too large. \<open>None\<close> for a value that is not a number.
\<close>

definition as_float :: "'f runtime \<Rightarrow> 'f json \<Rightarrow> (py_exc + 'f) option" where
  "as_float rt v =
     (case v of
        JFloat x \<Rightarrow> Some (Inr x)
      | _ \<Rightarrow>
          (case as_int v of
             None \<Rightarrow> None
           | Some i \<Rightarrow>
               (case float_of_int rt i of
                  Some x \<Rightarrow> Some (Inr x)
                | None \<Rightarrow>
                    Some (Inl (Exc OverflowError (lit ''int too large to convert to float''))))))"

definition unsupported :: "pystr \<Rightarrow> 'f json \<Rightarrow> 'f json \<Rightarrow> py_exc" where
  "unsupported opr a b =
     Exc TypeError (lit ''unsupported operand type(s) for '' @ opr @ lit '': ''
                    @ quoted (type_name a) @ lit '' and '' @ quoted (type_name b))"

definition float_op ::
  "('f \<Rightarrow> 'f \<Rightarrow> 'f) \<Rightarrow> py_exc + 'f \<Rightarrow> py_exc + 'f \<Rightarrow> py_exc + 'f json" where
  "float_op f x y = and_then x (\<lambda>u. and_then y (\<lambda>w. Inr (JFloat (f u w))))"

definition py_add :: "'f runtime \<Rightarrow> 'f json \<Rightarrow> 'f json \<Rightarrow> py_exc + 'f json" where
  "py_add rt a b =
     (case (as_int a, as_int b) of
        (Some i, Some j) \<Rightarrow> Inr (JInt (i + j))
      | _ \<Rightarrow>
          (case (as_float rt a, as_float rt b) of
             (Some x, Some y) \<Rightarrow> float_op (float_add rt) x y
           | _ \<Rightarrow>
               (case a of
                  JStr s \<Rightarrow>
                    (case b of
                       JStr t \<Rightarrow> Inr (JStr (s @ t))
                     | _ \<Rightarrow>
                         Inl (Exc TypeError
                               (lit ''can only concatenate str (not '' @ 34 # type_name b
                                @ 34 # lit '') to str'')))
                | JArr xs \<Rightarrow>
                    (case b of
                       JArr ys \<Rightarrow> Inr (JArr (xs @ ys))
                     | _ \<Rightarrow>
                         Inl (Exc TypeError
                               (lit ''can only concatenate list (not '' @ 34 # type_name b
                                @ 34 # lit '') to list'')))
                | _ \<Rightarrow> Inl (unsupported (lit ''+'') a b))))"

text \<open>
  A string or a list repeated \<open>n\<close> times. The count must fit a signed 64-bit index and
  so must the length of the result. Memory is not modelled: a result within these
  bounds is built.
\<close>

definition ssize_max :: int where
  "ssize_max = 9223372036854775807"

definition py_repeat :: "'f json \<Rightarrow> int \<Rightarrow> py_exc + 'f json" where
  "py_repeat v n =
     (if n > ssize_max \<or> n < - ssize_max - 1
      then Inl (Exc OverflowError
                 (lit ''cannot fit '' @ quoted (lit ''int'') @ lit '' into an index-sized integer''))
      else
        (case v of
           JStr s \<Rightarrow>
             if n \<le> 0 \<or> s = [] then Inr (JStr [])
             else if int (length s) > ssize_max div n
             then Inl (Exc OverflowError (lit ''repeated string is too long''))
             else Inr (JStr (concat (replicate (nat n) s)))
         | JArr xs \<Rightarrow>
             if n \<le> 0 \<or> xs = [] then Inr (JArr [])
             else if int (length xs) > ssize_max div n
             then Inl (Exc MemoryError [])
             else Inr (JArr (concat (replicate (nat n) xs)))
         | _ \<Rightarrow> Inr v))"

definition is_sequence :: "'f json \<Rightarrow> bool" where
  "is_sequence v = (case v of JStr s \<Rightarrow> True | JArr xs \<Rightarrow> True | _ \<Rightarrow> False)"

definition repeat_by :: "'f json \<Rightarrow> 'f json \<Rightarrow> py_exc + 'f json" where
  "repeat_by v n =
     (case as_int n of
        Some k \<Rightarrow> py_repeat v k
      | None \<Rightarrow>
          Inl (Exc TypeError
                (lit ''can'' @ 39 # lit ''t multiply sequence by non-int of type ''
                 @ quoted (type_name n))))"

definition py_mul :: "'f runtime \<Rightarrow> 'f json \<Rightarrow> 'f json \<Rightarrow> py_exc + 'f json" where
  "py_mul rt a b =
     (case (as_int a, as_int b) of
        (Some i, Some j) \<Rightarrow> Inr (JInt (i * j))
      | _ \<Rightarrow>
          (case (as_float rt a, as_float rt b) of
             (Some x, Some y) \<Rightarrow> float_op (float_mul rt) x y
           | _ \<Rightarrow>
               if is_sequence a then repeat_by a b
               else if is_sequence b then repeat_by b a
               else Inl (unsupported (lit ''*'') a b)))"

subsection \<open>\<open>print\<close>\<close>

text \<open>
  A text printed to standard output becomes one entry of the output. ASCII text can
  always be written; for any other text the stream's encoding decides.
\<close>

definition py_print :: "'f runtime \<Rightarrow> pystr list \<Rightarrow> pystr \<Rightarrow> py_exc + pystr list" where
  "py_print rt out text =
     (if list_all (\<lambda>c. c < 128) text then Inr (out @ [text])
      else
        (case encode_error rt text of
           None \<Rightarrow> Inr (out @ [text])
         | Some m \<Rightarrow> Inl (Exc UnicodeEncodeError m)))"

section \<open>The server (simple_mcp_server.py)\<close>

text \<open>
  The state of \<open>SimpleMCPServer\<close> that changes: the \<open>running\<close> flag, and standard
  output, one entry for each \<open>print\<close>. The request counter is set by \<open>__init__\<close> and
  never used. The capabilities and the three registries are set by \<open>__init__\<close> and never
  assigned again; they are constants.
\<close>

record server =
  server_request_id :: int
  running :: bool
  stdout :: "pystr list"

definition init_server :: server where
  "init_server = \<lparr>server_request_id = 0, running = True, stdout = []\<rparr>"

definition capabilities :: "'f json" where
  "capabilities =
     JObj [(lit ''resources'', JObj [(lit ''list'', JObj []), (lit ''get'', JObj [])]),
           (lit ''prompts'', JObj [(lit ''list'', JObj []), (lit ''execute'', JObj [])]),
           (lit ''tools'', JObj [(lit ''list'', JObj []), (lit ''execute'', JObj [])])]"

record resource =
  resource_type :: pystr
  resource_content :: pystr

definition resources :: "(pystr \<times> resource) list" where
  "resources =
     [(lit ''sample_text'',
       \<lparr>resource_type = lit ''text/plain'',
        resource_content = lit ''This is a sample text resource.''\<rparr>),
      (lit ''sample_image'',
       \<lparr>resource_type = lit ''image/png'',
        resource_content = lit ''base64encodedimagedatawouldgohere''\<rparr>)]"

text \<open>An entry of the prompt or of the tool registry: a description and the declared
  arguments, each with a type name and a description.\<close>

record arg_spec =
  arg_type :: pystr
  arg_description :: pystr

record entry =
  entry_description :: pystr
  entry_args :: "(pystr \<times> arg_spec) list"

definition prompts :: "(pystr \<times> entry) list" where
  "prompts =
     [(lit ''echo'',
       \<lparr>entry_description = lit ''Echo the input text'',
        entry_args = [(lit ''text'',
          \<lparr>arg_type = lit ''string'', arg_description = lit ''Text to echo''\<rparr>)]\<rparr>),
      (lit ''reverse'',
       \<lparr>entry_description = lit ''Reverse the input text'',
        entry_args = [(lit ''text'',
          \<lparr>arg_type = lit ''string'', arg_description = lit ''Text to reverse''\<rparr>)]\<rparr>)]"

definition tools :: "(pystr \<times> entry) list" where
  "tools =
     [(lit ''add'',
       \<lparr>entry_description = lit ''Add two numbers'',
        entry_args =
          [(lit ''a'', \<lparr>arg_type = lit ''number'', arg_description = lit ''First number''\<rparr>),
           (lit ''b'', \<lparr>arg_type = lit ''number'', arg_description = lit ''Second number''\<rparr>)]\<rparr>),
      (lit ''multiply'',
       \<lparr>entry_description = lit ''Multiply two numbers'',
        entry_args =
          [(lit ''a'', \<lparr>arg_type = lit ''number'', arg_description = lit ''First number''\<rparr>),
           (lit ''b'', \<lparr>arg_type = lit ''number'', arg_description = lit ''Second number''\<rparr>)]\<rparr>)]"

definition args_json :: "(pystr \<times> arg_spec) list \<Rightarrow> 'f json" where
  "args_json specs =
     JObj (map (\<lambda>(name, spec).
                  (name, JObj [(lit ''type'', JStr (arg_type spec)),
                               (lit ''description'', JStr (arg_description spec))])) specs)"

subsection \<open>Responses\<close>

definition create_error_response :: "'f runtime \<Rightarrow> 'f json \<Rightarrow> int \<Rightarrow> pystr \<Rightarrow> pystr" where
  "create_error_response rt ident code message =
     dumps rt (JObj [(lit ''jsonrpc'', JStr (lit ''2.0'')),
                     (lit ''id'', ident),
                     (lit ''error'', JObj [(lit ''code'', JInt code),
                                           (lit ''message'', JStr message)])])"

text \<open>The text every handler returns on success.\<close>

definition result_response :: "'f runtime \<Rightarrow> 'f json \<Rightarrow> 'f json \<Rightarrow> pystr" where
  "result_response rt ident result =
     dumps rt (JObj [(lit ''jsonrpc'', JStr (lit ''2.0'')),
                     (lit ''id'', ident),
                     (lit ''result'', result)])"

subsection \<open>Handlers\<close>

text \<open>
  A handler returns the response text or raises, and returns the state of the server
  as it has become up to that point.
\<close>

type_synonym handled = "(py_exc + pystr) \<times> server"

definition handle_initialize :: "'f runtime \<Rightarrow> server \<Rightarrow> 'f json \<Rightarrow> 'f json \<Rightarrow> handled" where
  "handle_initialize rt srv ident params =
     (case py_get params (lit ''capabilities'') (JObj []) of
        Inl e \<Rightarrow> (Inl e, srv)
      | Inr client_capabilities \<Rightarrow>
     (case py_get params (lit ''clientInfo'') (JObj []) of
        Inl e \<Rightarrow> (Inl e, srv)
      | Inr client_info \<Rightarrow>
     (case py_get client_info (lit ''name'') (JStr (lit ''Unknown'')) of
        Inl e \<Rightarrow> (Inl e, srv)
      | Inr name \<Rightarrow>
     (case py_get client_info (lit ''version'') (JStr (lit ''Unknown'')) of
        Inl e \<Rightarrow> (Inl e, srv)
      | Inr version \<Rightarrow>
     (case py_print rt (stdout srv)
             (lit ''Client connected: '' @ py_str rt name @ lit '' '' @ py_str rt version) of
        Inl e \<Rightarrow> (Inl e, srv)
      | Inr out1 \<Rightarrow>
     (case py_print rt out1
             (lit ''Client capabilities: '' @ dumps_indent rt 0 client_capabilities) of
        Inl e \<Rightarrow> (Inl e, srv\<lparr>stdout := out1\<rparr>)
      | Inr out2 \<Rightarrow>
          (Inr (result_response rt ident
                  (JObj [(lit ''capabilities'', capabilities),
                         (lit ''serverInfo'',
                          JObj [(lit ''name'', JStr (lit ''Simple MCP Server'')),
                                (lit ''version'', JStr (lit ''1.0.0''))])])),
           srv\<lparr>stdout := out2\<rparr>)))))))"

definition handle_shutdown :: "'f runtime \<Rightarrow> server \<Rightarrow> 'f json \<Rightarrow> 'f json \<Rightarrow> handled" where
  "handle_shutdown rt srv ident params =
     (Inr (result_response rt ident (JObj [])), srv\<lparr>running := False\<rparr>)"

definition handle_resources_list :: "'f runtime \<Rightarrow> server \<Rightarrow> 'f json \<Rightarrow> 'f json \<Rightarrow> handled" where
  "handle_resources_list rt srv ident params =
     (Inr (result_response rt ident
             (JObj [(lit ''resources'',
                     JArr (map (\<lambda>(uri, r). JObj [(lit ''uri'', JStr uri),
                                                    (lit ''type'', JStr (resource_type r))])
                               resources))])),
      srv)"

text \<open>\<open>not v or v not in d\<close>: the second test is made only when \<open>v\<close> is true.\<close>

definition not_found :: "'f runtime \<Rightarrow> 'f json \<Rightarrow> (pystr \<times> 'v) list \<Rightarrow> py_exc + bool" where
  "not_found rt v d =
     (if \<not> py_bool rt v then Inr True
      else and_then (py_in_registry v d) (\<lambda>b. Inr (\<not> b)))"

definition handle_resources_get :: "'f runtime \<Rightarrow> server \<Rightarrow> 'f json \<Rightarrow> 'f json \<Rightarrow> handled" where
  "handle_resources_get rt srv ident params =
     (and_then (py_get params (lit ''uri'') JNull) (\<lambda>uri.
      and_then (not_found rt uri resources) (\<lambda>absent.
        if absent
        then Inr (create_error_response rt ident (- 32602)
                    (lit ''Resource not found: '' @ py_str rt uri))
        else
          and_then (py_registry_getitem rt resources uri) (\<lambda>r.
            Inr (result_response rt ident
                   (JObj [(lit ''uri'', uri),
                          (lit ''type'', JStr (resource_type r)),
                          (lit ''content'', JStr (resource_content r))]))))),
      srv)"

definition listing :: "(pystr \<times> entry) list \<Rightarrow> 'f json" where
  "listing registry =
     JArr (map (\<lambda>(name, e). JObj [(lit ''id'', JStr name),
                                   (lit ''description'', JStr (entry_description e)),
                                   (lit ''args'', args_json (entry_args e))])
               registry)"

definition handle_prompts_list :: "'f runtime \<Rightarrow> server \<Rightarrow> 'f json \<Rightarrow> 'f json \<Rightarrow> handled" where
  "handle_prompts_list rt srv ident params =
     (Inr (result_response rt ident (JObj [(lit ''prompts'', listing prompts)])), srv)"

definition handle_tools_list :: "'f runtime \<Rightarrow> server \<Rightarrow> 'f json \<Rightarrow> 'f json \<Rightarrow> handled" where
  "handle_tools_list rt srv ident params =
     (Inr (result_response rt ident (JObj [(lit ''tools'', listing tools)])), srv)"

text \<open>
  The loop over the declared arguments: the first declared name that is not \<open>in args\<close>,
  if there is one. The test itself raises when \<open>args\<close> is not iterable.
\<close>

fun first_missing :: "pystr list \<Rightarrow> 'f json \<Rightarrow> py_exc + pystr option" where
  "first_missing [] args = Inr None"
| "first_missing (arg_name # names) args =
     (case py_contains arg_name args of
        Inl e \<Rightarrow> Inl e
      | Inr present \<Rightarrow> if \<not> present then Inr (Some arg_name) else first_missing names args)"

definition handle_prompts_execute :: "'f runtime \<Rightarrow> server \<Rightarrow> 'f json \<Rightarrow> 'f json \<Rightarrow> handled" where
  "handle_prompts_execute rt srv ident params =
     (and_then (py_get params (lit ''id'') JNull) (\<lambda>prompt_id.
      and_then (py_get params (lit ''args'') (JObj [])) (\<lambda>args.
      and_then (not_found rt prompt_id prompts) (\<lambda>absent.
        if absent
        then Inr (create_error_response rt ident (- 32602)
                    (lit ''Prompt not found: '' @ py_str rt prompt_id))
        else
          and_then (py_registry_getitem rt prompts prompt_id) (\<lambda>prompt.
          and_then (first_missing (map fst (entry_args prompt)) args) (\<lambda>missing.
            case missing of
              Some arg_name \<Rightarrow>
                Inr (create_error_response rt ident (- 32602)
                       (lit ''Missing argument: '' @ arg_name))
            | None \<Rightarrow>
                and_then
                  (if prompt_id = JStr (lit ''echo'') then py_getitem rt args (lit ''text'')
                   else if prompt_id = JStr (lit ''reverse'')
                   then and_then (py_getitem rt args (lit ''text'')) py_reversed
                   else Inr (JStr (lit ''Unknown prompt'')))
                  (\<lambda>result.
                     Inr (result_response rt ident (JObj [(lit ''result'', result)])))))))),
      srv)"

definition handle_tools_execute :: "'f runtime \<Rightarrow> server \<Rightarrow> 'f json \<Rightarrow> 'f json \<Rightarrow> handled" where
  "handle_tools_execute rt srv ident params =
     (and_then (py_get params (lit ''id'') JNull) (\<lambda>tool_id.
      and_then (py_get params (lit ''args'') (JObj [])) (\<lambda>args.
      and_then (not_found rt tool_id tools) (\<lambda>absent.
        if absent
        then Inr (create_error_response rt ident (- 32602)
                    (lit ''Tool not found: '' @ py_str rt tool_id))
        else
          and_then (py_registry_getitem rt tools tool_id) (\<lambda>tool.
          and_then (first_missing (map fst (entry_args tool)) args) (\<lambda>missing.
            case missing of
              Some arg_name \<Rightarrow>
                Inr (create_error_response rt ident (- 32602)
                       (lit ''Missing argument: '' @ arg_name))
            | None \<Rightarrow>
                and_then
                  (if tool_id = JStr (lit ''add'')
                   then and_then (py_getitem rt args (lit ''a'')) (\<lambda>a.
                        and_then (py_getitem rt args (lit ''b'')) (\<lambda>b. py_add rt a b))
                   else if tool_id = JStr (lit ''multiply'')
                   then and_then (py_getitem rt args (lit ''a'')) (\<lambda>a.
                        and_then (py_getitem rt args (lit ''b'')) (\<lambda>b. py_mul rt a b))
                   else Inr (JStr (lit ''Unknown tool'')))
                  (\<lambda>result.
                     Inr (result_response rt ident (JObj [(lit ''result'', result)])))))))),
      srv)"

subsection \<open>\<open>handle_request\<close>\<close>

text \<open>
  A call \<open>self.handle_x(request["id"], params)\<close>: the argument \<open>request["id"]\<close> is
  evaluated first and raises \<open>KeyError\<close> when the request has no id.
\<close>

definition call_with_id ::
  "'f runtime \<Rightarrow> server \<Rightarrow> 'f json \<Rightarrow> ('f json \<Rightarrow> handled) \<Rightarrow> handled" where
  "call_with_id rt srv request handler =
     (case py_getitem rt request (lit ''id'') of
        Inl e \<Rightarrow> (Inl e, srv)
      | Inr ident \<Rightarrow> handler ident)"

text \<open>The statements of the \<open>try\<close> block after \<open>json.loads\<close> has returned \<open>request\<close>.\<close>

definition dispatch :: "'f runtime \<Rightarrow> server \<Rightarrow> 'f json \<Rightarrow> handled" where
  "dispatch rt srv request =
     (case py_contains (lit ''method'') request of
        Inl e \<Rightarrow> (Inl e, srv)
      | Inr has_method \<Rightarrow>
          if \<not> has_method then
            (and_then (py_get request (lit ''id'') JNull) (\<lambda>ident.
               Inr (create_error_response rt ident (- 32600) (lit ''Invalid Request''))),
             srv)
          else
            (case py_getitem rt request (lit ''method'') of
               Inl e \<Rightarrow> (Inl e, srv)
             | Inr method \<Rightarrow>
                 (case py_get request (lit ''params'') (JObj []) of
                    Inl e \<Rightarrow> (Inl e, srv)
                  | Inr params \<Rightarrow>
                      if method = JStr (lit ''initialize'') then
                        call_with_id rt srv request (\<lambda>i. handle_initialize rt srv i params)
                      else if method = JStr (lit ''shutdown'') then
                        call_with_id rt srv request (\<lambda>i. handle_shutdown rt srv i params)
                      else if method = JStr (lit ''resources/list'') then
                        call_with_id rt srv request (\<lambda>i. handle_resources_list rt srv i params)
                      else if method = JStr (lit ''resources/get'') then
                        call_with_id rt srv request (\<lambda>i. handle_resources_get rt srv i params)
                      else if method = JStr (lit ''prompts/list'') then
                        call_with_id rt srv request (\<lambda>i. handle_prompts_list rt srv i params)
                      else if method = JStr (lit ''prompts/execute'') then
                        call_with_id rt srv request (\<lambda>i. handle_prompts_execute rt srv i params)
                      else if method = JStr (lit ''tools/list'') then
                        call_with_id rt srv request (\<lambda>i. handle_tools_list rt srv i params)
                      else if method = JStr (lit ''tools/execute'') then
                        call_with_id rt srv request (\<lambda>i. handle_tools_execute rt srv i params)
                      else
                        call_with_id rt srv request (\<lambda>i.
                          (Inr (create_error_response rt i (- 32601)
                                  (lit ''Method not found: '' @ py_str rt method)),
                           srv)))))"

text \<open>
  \<open>handle_request\<close>: \<open>JSONDecodeError\<close> from \<open>json.loads\<close> gives the parse error, any
  other exception raised in the \<open>try\<close> block the internal error; both with a null id.
\<close>

definition handle_request :: "'f runtime \<Rightarrow> server \<Rightarrow> pystr \<Rightarrow> pystr \<times> server" where
  "handle_request rt srv request_str =
     (case loads rt request_str of
        None \<Rightarrow> (create_error_response rt JNull (- 32700) (lit ''Parse error''), srv)
      | Some request \<Rightarrow>
          (case dispatch rt srv request of
             (Inr response, srv') \<Rightarrow> (response, srv')
           | (Inl e, srv') \<Rightarrow>
               (create_error_response rt JNull (- 32603)
                  (lit ''Internal error: '' @ exc_str e), srv')))"

subsection \<open>\<open>run\<close>\<close>

text \<open>
  Standard input is the sequence of results \<open>input()\<close> will give before the end of the
  input: a line without its terminator, or an exception of class \<open>Exception\<close> raised
  while reading (undecodable bytes). A response is ASCII text and its \<open>print\<close> is taken
  to succeed.
\<close>

datatype stdin_item = Line pystr | ReadError py_exc

definition emit :: "server \<Rightarrow> pystr \<Rightarrow> server" where
  "emit srv text = srv\<lparr>stdout := stdout srv @ [text]\<rparr>"

text \<open>
  The \<open>while self.running\<close> loop: returns the server at the end of the loop and the input
  that was not read.
\<close>

fun run_loop :: "'f runtime \<Rightarrow> server \<Rightarrow> stdin_item list \<Rightarrow> server \<times> stdin_item list" where
  "run_loop rt srv [] = (srv, [])"
| "run_loop rt srv (item # rest) =
     (if \<not> running srv then (srv, item # rest)
      else
        (case item of
           Line request_str \<Rightarrow>
             (case handle_request rt srv request_str of
                (response_str, srv') \<Rightarrow> run_loop rt (emit srv' response_str) rest)
         | ReadError e \<Rightarrow>
             run_loop rt
               (emit srv (create_error_response rt JNull (- 32603)
                            (lit ''Internal error: '' @ exc_str e)))
               rest))"

definition run :: "'f runtime \<Rightarrow> server \<Rightarrow> stdin_item list \<Rightarrow> server \<times> stdin_item list" where
  "run rt srv input =
     (case run_loop rt
             (emit (emit srv (lit ''Simple MCP Server started'')) (lit ''Waiting for requests...''))
             input of
        (srv', unread) \<Rightarrow> (emit srv' (lit ''Simple MCP Server stopped''), unread))"

section \<open>The client simulator (mcp_client_simulator.py)\<close>

text \<open>
  The attributes of \<open>MCPClientSimulator\<close> that the protocol logic reads or writes:
  the transport name, the request counter, the connected flag, and the two ends of the
  stdio transport: \<open>reader\<close> holds the lines still to be returned by \<open>readline()\<close>
  (each with its line terminator), \<open>writer\<close> the texts written so far.
\<close>

record client =
  transport :: pystr
  request_id :: int
  connected :: bool
  reader :: "pystr list"
  writer :: "pystr list"

text \<open>\<open>__init__\<close>: the counter starts at 0 and the client is not connected.\<close>

definition init_client :: "pystr \<Rightarrow> pystr list \<Rightarrow> client" where
  "init_client tr incoming =
     \<lparr>transport = tr, request_id = 0, connected = False, reader = incoming, writer = []\<rparr>"

text \<open>\<open>next_id\<close>: increment the counter, return the new value.\<close>

definition next_id :: "client \<Rightarrow> int \<times> client" where
  "next_id c = (request_id c + 1, c\<lparr>request_id := request_id c + 1\<rparr>)"

text \<open>\<open>n\<close> successive calls of \<open>next_id\<close>; the ids in the order they were returned.\<close>

fun next_ids :: "nat \<Rightarrow> client \<Rightarrow> int list \<times> client" where
  "next_ids 0 c = ([], c)"
| "next_ids (Suc n) c =
     (case next_id c of (i, c') \<Rightarrow> (case next_ids n c' of (is, c'') \<Rightarrow> (i # is, c'')))"

text \<open>
  \<open>readline()\<close>: the next line with its terminator, or the empty text at the end of the
  stream. The bytes received are taken to be valid UTF-8, so that \<open>decode()\<close> succeeds.
\<close>

definition readline :: "client \<Rightarrow> pystr \<times> client" where
  "readline c =
     (case reader c of
        [] \<Rightarrow> ([], c)
      | l # ls \<Rightarrow> (l, c\<lparr>reader := ls\<rparr>))"

text \<open>
  \<open>send_request\<close>: write the request as one line, read one line, return what it
  decodes to; \<open>None\<close> at the end of the stream or for a line that is not JSON. Any
  transport other than stdio raises.
\<close>

definition send_request :: "'f runtime \<Rightarrow> client \<Rightarrow> 'f json \<Rightarrow> py_exc + ('f json option \<times> client)" where
  "send_request rt c request =
     (let request_str = dumps rt request @ [10]
      in if transport c = lit ''stdio'' then
           (case readline (c\<lparr>writer := writer c @ [request_str]\<rparr>) of
              (response_line, c') \<Rightarrow>
                if response_line = [] then Inr (None, c')
                else
                  (case loads rt response_line of
                     Some response \<Rightarrow> Inr (Some response, c')
                   | None \<Rightarrow> Inr (None, c')))
         else Inl (Exc NotImplementedError (lit ''HTTP/SSE transport not yet implemented'')))"

text \<open>
  The runtime used to evaluate the program on concrete inputs that hold no float and no
  character outside ASCII: its float type has one value, no character above 127 is
  printable, and standard output accepts every text.
\<close>

definition plain_runtime :: "unit runtime" where
  "plain_runtime =
     \<lparr>float_of_str = (\<lambda>s. ()), float_repr = (\<lambda>x. lit ''nan''),
      float_add = (\<lambda>x y. ()), float_mul = (\<lambda>x y. ()),
      float_of_int = (\<lambda>i. Some ()), printable = (\<lambda>c. False),
      encode_error = (\<lambda>s. None)\<rparr>"

section \<open>Properties of the id allocator\<close>

lemma next_ids_from:
  "fst (next_ids n c) = map (\<lambda>k. request_id c + 1 + int k) [0..<n]"
proof (induction n arbitrary: c)
  case 0
  show ?case by simp
next
  case (Suc n)
  have "fst (next_ids (Suc n) c) =
        (request_id c + 1) # fst (next_ids n (c\<lparr>request_id := request_id c + 1\<rparr>))"
    by (simp add: next_id_def split: prod.splits)
  also have "\<dots> = (request_id c + 1) # map (\<lambda>k. request_id c + 1 + 1 + int k) [0..<n]"
    by (simp add: Suc.IH)
  also have "\<dots> = map (\<lambda>k. request_id c + 1 + int k) [0..<Suc n]"
    by (simp add: upt_rec [of 0 "Suc n"] map_Suc_upt [symmetric] del: upt_Suc)
  finally show ?case .
qed

text \<open>
  C7. On a freshly created client the k-th call of \<open>next_id\<close> (counting from 1) returns
  k: after any number n of calls the ids handed out are 1, 2, ..., n in this order, so
  the first id is 1 and each id is strictly greater than all ids allocated before it.
\<close>

theorem next_id_nth_call:
  "fst (next_ids n (init_client tr incoming)) = map (\<lambda>k. int k + 1) [0..<n]
   \<and> sorted_wrt (<) (fst (next_ids n (init_client tr incoming)))"
proof -
  have eq: "fst (next_ids n (init_client tr incoming)) = map (\<lambda>k. int k + 1) [0..<n]"
    by (simp add: next_ids_from init_client_def add.commute)
  have "sorted_wrt (<) (map (\<lambda>k. int k + 1) [0..<n])"
    by (simp add: sorted_wrt_map sorted_wrt_iff_nth_less)
  with eq show ?thesis by simp
qed

section \<open>Properties of the server\<close>

lemma lit_eq_iff [simp]: "lit a = lit b \<longleftrightarrow> a = b"
  unfolding lit_def by (rule inj_map_eq_map) (simp add: inj_def)

lemma lit_Nil_iff [simp]: "lit s = [] \<longleftrightarrow> s = []" "[] = lit s \<longleftrightarrow> s = []"
  by (auto simp: lit_def)

lemma lit_append [simp]: "lit a @ lit b = lit (a @ b)"
  by (simp add: lit_def)

lemma in_keys_iff: "k \<in> fst ` set kvs \<longleftrightarrow> map_of kvs k \<noteq> None"
  by (simp add: map_of_eq_None_iff)

text \<open>The method names \<open>handle_request\<close> compares the method of a request with.\<close>

definition methods :: "pystr list" where
  "methods = map lit [''initialize'', ''shutdown'', ''resources/list'', ''resources/get'',
                      ''prompts/list'', ''prompts/execute'', ''tools/list'', ''tools/execute'']"

lemmas request_access = py_contains_def py_getitem_def py_get_def call_with_id_def in_keys_iff

lemma unknown_method_with_id:
  assumes "loads rt line = Some (JObj kvs)"
    and "map_of kvs (lit ''method'') = Some m"
    and "m \<notin> JStr ` set methods"
    and "map_of kvs (lit ''id'') = Some i"
  shows "handle_request rt srv line =
           (create_error_response rt i (- 32601) (lit ''Method not found: '' @ py_str rt m), srv)"
  using assms
  by (auto simp: handle_request_def dispatch_def request_access methods_def)









lemma and_then_simps [simp]: "and_then (Inr v) f = f v" "and_then (Inl e) f = Inl e"
  by (simp_all add: and_then_def)

text \<open>
  C2 (defect of the code). A request whose method has no handler is answered with
  \<open>-32601\<close> and its id when it has an id (\<open>unknown_method_with_id\<close>). Without an id
  field, \<open>request["id"]\<close> raises \<open>KeyError\<close> and the answer is the internal error
  \<open>-32603\<close> with a null id, while the branch for a missing method reads the id with
  \<open>request.get("id")\<close> and tolerates its absence.
\<close>

theorem unknown_method_without_id:
  \<open>handle_request plain_runtime init_server (lit ''{"jsonrpc": "2.0", "method": "nonexistent", "params": {}}'') =
   (create_error_response plain_runtime JNull (- 32603) (lit ''Internal error: '' @ quoted (lit ''id'')),
    init_server)\<close>
proof -
  have dec: \<open>loads plain_runtime (lit ''{"jsonrpc": "2.0", "method": "nonexistent", "params": {}}'') =
      Some (JObj [(lit ''jsonrpc'', JStr (lit ''2.0'')), (lit ''method'', JStr (lit ''nonexistent'')),
                  (lit ''params'', JObj [])])\<close>
    by code_simp
  have "str_repr plain_runtime (lit ''id'') = quoted (lit ''id'')"
    by (simp add: str_repr_def quoted_def repr_char_def lit_def)
  then show ?thesis
    by (simp add: handle_request_def dec dispatch_def request_access)
qed












text \<open>The two shapes of a response.\<close>

definition response_shape :: "'f runtime \<Rightarrow> pystr \<Rightarrow> bool" where
  "response_shape rt text \<longleftrightarrow>
     (\<exists>i r. text = result_response rt i r) \<or> (\<exists>i c m. text = create_error_response rt i c m)"

lemma shape_result [simp]: "response_shape rt (result_response rt i r)"
  and shape_error [simp]: "response_shape rt (create_error_response rt i c m)"
  unfolding response_shape_def by blast+

lemma and_then_Inr_iff:
  "and_then x f = Inr r \<longleftrightarrow> (\<exists>v. x = Inr v \<and> f v = Inr r)"
  by (cases x) simp_all

lemma initialize_shape:
  "handle_initialize rt srv i p = (Inr text, srv') \<Longrightarrow> response_shape rt text"
  by (auto simp: handle_initialize_def split: sum.splits)


lemma resources_get_shape:
  "handle_resources_get rt srv i p = (Inr text, srv') \<Longrightarrow> response_shape rt text"
  by (auto simp: handle_resources_get_def and_then_Inr_iff split: if_splits)

lemma case_option_Inr_iff:
  "(case x of None \<Rightarrow> a | Some n \<Rightarrow> b n) = Inr r \<longleftrightarrow>
     (x = None \<and> a = Inr r) \<or> (\<exists>n. x = Some n \<and> b n = Inr r)"
  by (cases x) simp_all

lemma prompts_execute_shape:
  "handle_prompts_execute rt srv i p = (Inr text, srv') \<Longrightarrow> response_shape rt text"
  by (auto simp: handle_prompts_execute_def and_then_Inr_iff case_option_Inr_iff
           split: if_splits)

lemma tools_execute_shape:
  "handle_tools_execute rt srv i p = (Inr text, srv') \<Longrightarrow> response_shape rt text"
  by (auto simp: handle_tools_execute_def and_then_Inr_iff case_option_Inr_iff
           split: if_splits)

lemma dispatch_shape:
  "dispatch rt srv v = (Inr text, srv') \<Longrightarrow> response_shape rt text"
  by (auto simp: dispatch_def call_with_id_def handle_shutdown_def handle_resources_list_def
        handle_prompts_list_def handle_tools_list_def and_then_Inr_iff
      split: sum.splits if_splits
      dest: initialize_shape resources_get_shape prompts_execute_shape tools_execute_shape)

lemma handler_state [simp]:
  "snd (handle_resources_list rt srv i p) = srv"
  "snd (handle_resources_get rt srv i p) = srv"
  "snd (handle_prompts_list rt srv i p) = srv"
  "snd (handle_prompts_execute rt srv i p) = srv"
  "snd (handle_tools_list rt srv i p) = srv"
  "snd (handle_tools_execute rt srv i p) = srv"
  by (simp_all add: handle_resources_list_def handle_resources_get_def handle_prompts_list_def
        handle_prompts_execute_def handle_tools_list_def handle_tools_execute_def)


lemma handle_request_shape: "response_shape rt (fst (handle_request rt srv line))"
proof (cases "loads rt line")
  case None
  then show ?thesis by (simp add: handle_request_def)
next
  case (Some v)
  obtain out srv' where d: "dispatch rt srv v = (out, srv')" by (cases "dispatch rt srv v")
  show ?thesis
  proof (cases out)
    case (Inl e)
    with Some d show ?thesis by (simp add: handle_request_def)
  next
    case (Inr resp)
    with Some d dispatch_shape [of rt srv v resp srv'] show ?thesis
      by (simp add: handle_request_def)
  qed
qed

text \<open>
  C6. The text \<open>handle_request\<close> returns for any line, on any branch, is the encoding of a
  dict in which exactly one of the keys \<open>result\<close> and \<open>error\<close> is present; so is every
  text \<open>create_error_response\<close> builds, which is what \<open>run\<close> prints in its own
  \<open>except\<close> branch.
\<close>

theorem response_has_result_xor_error:
  "(\<exists>obj. fst (handle_request rt srv line) = dumps rt (JObj obj)
      \<and> (lit ''result'' \<in> fst ` set obj) \<noteq> (lit ''error'' \<in> fst ` set obj))
   \<and> (\<exists>obj. create_error_response rt i code message = dumps rt (JObj obj)
      \<and> (lit ''result'' \<in> fst ` set obj) \<noteq> (lit ''error'' \<in> fst ` set obj))"
proof -
  have shape: "\<exists>obj. resp = dumps rt (JObj obj)
      \<and> (lit ''result'' \<in> fst ` set obj) \<noteq> (lit ''error'' \<in> fst ` set obj)"
    if "response_shape rt resp" for resp
  proof -
    from that consider i r where "resp = result_response rt i r"
      | i c m where "resp = create_error_response rt i c m"
      by (auto simp: response_shape_def)
    then show ?thesis
    proof cases
      case 1
      have "(lit ''result'' \<in> fst ` set [(lit ''jsonrpc'', JStr (lit ''2.0'')), (lit ''id'', i),
                (lit ''result'', r)])
            \<noteq> (lit ''error'' \<in> fst ` set [(lit ''jsonrpc'', JStr (lit ''2.0'')), (lit ''id'', i),
                (lit ''result'', r)])"
        by simp
      with 1 show ?thesis unfolding result_response_def by blast
    next
      case 2
      have "(lit ''result'' \<in> fst ` set [(lit ''jsonrpc'', JStr (lit ''2.0'')), (lit ''id'', i),
                (lit ''error'', JObj [(lit ''code'', JInt c), (lit ''message'', JStr m)])])
            \<noteq> (lit ''error'' \<in> fst ` set [(lit ''jsonrpc'', JStr (lit ''2.0'')), (lit ''id'', i),
                (lit ''error'', JObj [(lit ''code'', JInt c), (lit ''message'', JStr m)])])"
        by simp
      with 2 show ?thesis unfolding create_error_response_def by blast
    qed
  qed
  from shape [OF handle_request_shape] shape [OF shape_error] show ?thesis by blast
qed









end
